theory Spec2Isabelle
  imports Main
begin

section \<open>Python strings and slices\<close>

text \<open>
  A Python string is modelled as a \<open>string\<close> (a list of characters) and a Python integer as
  an \<open>int\<close>. An optional argument whose default is \<open>None\<close> is an \<open>option\<close>.
  The only exception the string functions raise themselves is \<open>ValueError\<close>.
\<close>

datatype exn = ValueError

text \<open>
  A slice bound of Python: a negative bound counts from the end, and every bound is
  clamped into \<open>0 .. len\<close>.
\<close>

definition slice_index :: "nat \<Rightarrow> int \<Rightarrow> nat" where
  "slice_index n i = (if i < 0 then nat (int n + i) else min n (nat i))"

text \<open>\<open>s[lo:hi]\<close>; an omitted bound is \<open>None\<close>.\<close>

definition py_slice :: "'a list \<Rightarrow> int option \<Rightarrow> int option \<Rightarrow> 'a list" where
  "py_slice s lo hi =
     (let n = length s;
          a = (case lo of None \<Rightarrow> 0 | Some i \<Rightarrow> slice_index n i);
          b = (case hi of None \<Rightarrow> n | Some j \<Rightarrow> slice_index n j)
      in take (b - a) (drop a s))"

text \<open>The truth value of an optional integer: \<open>None\<close> and \<open>0\<close> are false.\<close>

fun truthy :: "int option \<Rightarrow> bool" where
  "truthy None = False"
| "truthy (Some l) = (l \<noteq> 0)"

section \<open>String functions of \<open>RexxFunctions.py\<close>\<close>

text \<open>
  \<^verbatim>\<open>
  def substr(string, start, length=None):
      if start < 1:
          raise ValueError("Start position must be >= 1")
      if length:
          return string[start-1 : start-1 + length]
      return string[start-1:]
  \<close>
\<close>

definition substr :: "string \<Rightarrow> int \<Rightarrow> int option \<Rightarrow> exn + string" where
  "substr string start len =
     (if start < 1 then Inl ValueError
      else if truthy len then
        (case len of
           Some l \<Rightarrow> Inr (py_slice string (Some (start - 1)) (Some (start - 1 + l)))
         | None \<Rightarrow> Inr (py_slice string (Some (start - 1)) None))
      else Inr (py_slice string (Some (start - 1)) None))"

text \<open>
  \<^verbatim>\<open>
  def delstr(string, start, length=None):
      if start < 1:
          raise ValueError("Start position must be >= 1")
      return string[:start-1] + (string[start-1 + length:] if length else "")
  \<close>
\<close>

definition delstr :: "string \<Rightarrow> int \<Rightarrow> int option \<Rightarrow> exn + string" where
  "delstr string start len =
     (if start < 1 then Inl ValueError
      else Inr (py_slice string None (Some (start - 1)) @
                (if truthy len then
                   (case len of
                      Some l \<Rightarrow> py_slice string (Some (start - 1 + l)) None
                    | None \<Rightarrow> [])
                 else [])))"

text \<open>
  \<^verbatim>\<open>
  def insert(new_str, original_str, position):
      if position < 1:
          position = 1
      return original_str[:position-1] + new_str + original_str[position-1:]
  \<close>
  The name \<open>insert\<close> is taken by sets, hence the suffix.
\<close>

definition insert_str :: "string \<Rightarrow> string \<Rightarrow> int \<Rightarrow> string" where
  "insert_str new_str original_str position =
     (let position' = (if position < 1 then 1 else position)
      in py_slice original_str None (Some (position' - 1)) @ new_str @
         py_slice original_str (Some (position' - 1)) None)"

section \<open>Values, outcomes and the file system\<close>

text \<open>
  \<open>linein\<close> returns a line (a string) or one of two integer sentinels; \<open>lineout\<close> and
  \<open>rm\<close> return an integer. A call ends in one of three ways: it returns, it ends the
  process with \<open>sys.exit(status)\<close> (\<open>SystemExit\<close> is no \<open>Exception\<close>, so no
  handler of the source catches it), or an exception leaves it.
\<close>

datatype rexx_value = Str string | Num int

datatype outcome = Returned rexx_value | Exited int | Raised exn

definition FILE_NOT_FOUND :: int where
  "FILE_NOT_FOUND = 0xEEEEEEEE"

definition END_OF_FILE :: int where
  "END_OF_FILE = 0xFFFFFFFF"

text \<open>
  The files the program sees. A path names nothing, a directory, or a regular file with
  its text; whether the file can be read, written and unlinked is part of the model, so that
  every handler of the source can be reached. Read access \<open>Denied\<close> is the operating
  system's \<open>PermissionError\<close>, \<open>Faulty\<close> any other \<open>OSError\<close> on reading. Contents are
  taken to be decodable text. \<open>resolve\<close> is \<open>Path(p).absolute()\<close> as a string, and also how
  the operating system resolves the path given to \<open>open\<close>; \<open>creatable\<close> says where
  \<open>open\<close> may create a file.

  The two output streams are lists of printed lines. A \<open>print\<close> raises when its stream does
  not accept the text: the stream is closed (\<open>ValueError\<close>) or cannot encode the text
  (\<open>UnicodeEncodeError\<close>, a \<open>ValueError\<close>); nothing is written then. \<open>exc_text\<close> is
  \<open>str(e)\<close> of an exception, a text of Python and of the operating system, for an
  \<open>OSError\<close> on a file name and for a failed \<open>print\<close> of a text.
\<close>

datatype access = Granted | Denied | Faulty

datatype fnode = Directory | Regular access bool bool string

datatype os_error = ENOENT | EISDIR | EACCES | EIO

datatype failure = OSFailure os_error string | PrintFailure string

record world =
  resolve :: "string \<Rightarrow> string"
  files :: "string \<rightharpoonup> fnode"
  creatable :: "string \<Rightarrow> bool"
  stdout :: "string list"
  stderr :: "string list"
  stdout_accepts :: "string \<Rightarrow> bool"
  stderr_accepts :: "string \<Rightarrow> bool"
  exc_text :: "failure \<Rightarrow> string"

abbreviation LF :: char where
  "LF \<equiv> CHR 0x0A"

abbreviation CR :: char where
  "CR \<equiv> CHR 0x0D"

text \<open>
  Iterating over a file opened with \<open>open(path, 'r')\<close>: text mode with universal newlines.
  A line ends at \<open>\n\<close>, at \<open>\r\n\<close> or at a lone \<open>\r\<close>, each handed over as \<open>\n\<close>; the
  last line may have no terminator. The first argument is the line read so far.
\<close>

fun text_lines_from :: "string \<Rightarrow> string \<Rightarrow> string list" where
  "text_lines_from cur [] = (if cur = [] then [] else [cur])"
| "text_lines_from cur (c # cs) =
     (if c = LF then (cur @ [LF]) # text_lines_from [] cs
      else if c = CR then
        (case cs of
           [] \<Rightarrow> [cur @ [LF]]
         | d # ds \<Rightarrow>
             if d = LF then (cur @ [LF]) # text_lines_from [] ds
             else (cur @ [LF]) # text_lines_from [] (d # ds))
      else text_lines_from (cur @ [c]) cs)"

definition text_lines :: "string \<Rightarrow> string list" where
  "text_lines c = text_lines_from [] c"

text \<open>\<open>content.rstrip('\n')\<close>: every trailing \<open>\n\<close> is removed.\<close>

definition rstrip_nl :: "string \<Rightarrow> string" where
  "rstrip_nl s = rev (dropWhile (\<lambda>c. c = LF) (rev s))"

text \<open>Opening a file for reading and iterating over it.\<close>

definition open_read :: "world \<Rightarrow> string \<Rightarrow> os_error + string list" where
  "open_read w path =
     (case files w path of
        None \<Rightarrow> Inl ENOENT
      | Some Directory \<Rightarrow> Inl EISDIR
      | Some (Regular a wr rmv c) \<Rightarrow>
          (case a of
             Granted \<Rightarrow> Inr (text_lines c)
           | Denied \<Rightarrow> Inl EACCES
           | Faulty \<Rightarrow> Inl EIO))"

text \<open>
  \<open>open(path, 'w')\<close> or \<open>open(path, 'a')\<close>, then \<open>file.write(text)\<close>, then close. A file
  that is created belongs to the process: it can be read, written and unlinked. The text is
  taken to be encodable.
\<close>

definition write_text :: "world \<Rightarrow> string \<Rightarrow> bool \<Rightarrow> string \<Rightarrow> os_error + world" where
  "write_text w path append_mode text =
     (case files w path of
        None \<Rightarrow>
          if creatable w path
          then Inr (w\<lparr>files := (files w)(path \<mapsto> Regular Granted True True text)\<rparr>)
          else Inl EACCES
      | Some Directory \<Rightarrow> Inl EISDIR
      | Some (Regular a wr rmv c) \<Rightarrow>
          if wr
          then Inr (w\<lparr>files := (files w)(path \<mapsto>
                 Regular a wr rmv ((if append_mode then c else []) @ text))\<rparr>)
          else Inl EACCES)"

text \<open>\<open>path.unlink()\<close>.\<close>

definition unlink :: "world \<Rightarrow> string \<Rightarrow> os_error + world" where
  "unlink w path =
     (case files w path of
        None \<Rightarrow> Inl ENOENT
      | Some Directory \<Rightarrow> Inl EISDIR
      | Some (Regular a wr rmv c) \<Rightarrow>
          if rmv then Inr (w\<lparr>files := (files w)(path := None)\<rparr>) else Inl EACCES)"

text \<open>\<open>print(msg, file=sys.stderr)\<close> and \<open>print(msg)\<close>.\<close>

definition print_to_stderr :: "string \<Rightarrow> world \<Rightarrow> exn + world" where
  "print_to_stderr msg w =
     (if stderr_accepts w msg then Inr (w\<lparr>stderr := stderr w @ [msg]\<rparr>) else Inl ValueError)"

definition print_to_stdout :: "string \<Rightarrow> world \<Rightarrow> exn + world" where
  "print_to_stdout msg w =
     (if stdout_accepts w msg then Inr (w\<lparr>stdout := stdout w @ [msg]\<rparr>) else Inl ValueError)"

section \<open>The class \<open>RexxFunctions\<close> of \<open>RexxFunctions.py\<close>\<close>

text \<open>
  \<^verbatim>\<open>
  def __init__(self, exit_on_error=True, verbose=True):
      self._file_positions = {}
      self.exit_on_error = exit_on_error
      self.verbose = verbose
      self.next_record = 0
  \<close>
\<close>

record rexx =
  file_positions :: "string \<rightharpoonup> int"
  exit_on_error :: bool
  verbose :: bool
  next_record :: int

definition init_rexx :: "bool \<Rightarrow> bool \<Rightarrow> rexx" where
  "init_rexx e v =
     \<lparr>file_positions = Map.empty, exit_on_error = e, verbose = v, next_record = 0\<rparr>"

text \<open>\<open>if self.verbose: print(msg, file=sys.stderr)\<close> and \<open>if self.verbose: print(msg)\<close>.\<close>

definition print_err :: "rexx \<Rightarrow> string \<Rightarrow> world \<Rightarrow> exn + world" where
  "print_err self msg w = (if verbose self then print_to_stderr msg w else Inr w)"

definition print_out :: "rexx \<Rightarrow> string \<Rightarrow> world \<Rightarrow> exn + world" where
  "print_out self msg w = (if verbose self then print_to_stdout msg w else Inr w)"

text \<open>\<open>if self.exit_on_error: sys.exit(1)\<close> followed by \<open>return value\<close>.\<close>

definition exit_or_return :: "rexx \<Rightarrow> int \<Rightarrow> outcome" where
  "exit_or_return self v = (if exit_on_error self then Exited 1 else Returned (Num v))"

text \<open>
  The three statements that end every handler, where nothing catches what the \<open>print\<close>
  raises (an exception raised inside an \<open>except\<close> block, or outside the \<open>try\<close>, leaves
  the method):
  \<^verbatim>\<open>
  if self.verbose:
      print(msg, file=sys.stderr)
  if self.exit_on_error:
      sys.exit(1)
  return value
  \<close>
\<close>

definition report :: "rexx \<Rightarrow> string \<Rightarrow> int \<Rightarrow> world \<Rightarrow> outcome \<times> world" where
  "report self msg v w =
     (case print_err self msg w of
        Inl ex \<Rightarrow> (Raised ex, w)
      | Inr w' \<Rightarrow> (exit_or_return self v, w'))"

text \<open>The handler \<open>except Exception as e\<close> of \<open>linein\<close>, lines 75 to 81.\<close>

definition except_exception :: "rexx \<Rightarrow> string \<Rightarrow> failure \<Rightarrow> world \<Rightarrow> outcome \<times> world" where
  "except_exception self path f w =
     report self (''Error reading file '' @ path @ '': '' @ exc_text w f) END_OF_FILE w"

text \<open>
  Lines 32 to 37, and 40 to 45 with the other text, which stand inside the \<open>try\<close>: what
  the \<open>print\<close> raises is no \<open>PermissionError\<close> and goes to \<open>except Exception\<close>.
\<close>

definition not_a_file :: "rexx \<Rightarrow> string \<Rightarrow> string \<Rightarrow> world \<Rightarrow> outcome \<times> world" where
  "not_a_file self path msg w =
     (case print_err self msg w of
        Inr w' \<Rightarrow> (exit_or_return self FILE_NOT_FOUND, w')
      | Inl ex \<Rightarrow> except_exception self path (PrintFailure msg) w)"

text \<open>
  \<open>self._file_positions[key]\<close>, read where the key has been stored (a missing key would
  raise \<open>KeyError\<close>; both implementations store the key before they read it).
\<close>

definition stored :: "(string \<rightharpoonup> int) \<Rightarrow> string \<Rightarrow> int" where
  "stored positions key = (case positions key of Some v \<Rightarrow> v | None \<Rightarrow> 0)"

text \<open>
  The loop \<open>for current_line, content in enumerate(file, 1)\<close> with its
  \<open>if current_line == target_line\<close>: the second argument is the number of the first line of
  the list.
\<close>

fun scan :: "string list \<Rightarrow> int \<Rightarrow> int \<Rightarrow> (int \<times> string) option" where
  "scan [] current_line target_line = None"
| "scan (content # rest) current_line target_line =
     (if current_line = target_line then Some (current_line, content)
      else scan rest (current_line + 1) target_line)"

text \<open>
  \<open>linein(self, file_path, line_number=None, exit_on_eof=True)\<close>, lines 22 to 81. The
  result is the outcome, the object and the world after the call. \<open>positions\<close> is the
  table after lines 48 and 49, \<open>self1\<close> the object with it.
\<close>

definition linein ::
  "world \<Rightarrow> rexx \<Rightarrow> string \<Rightarrow> int option \<Rightarrow> bool \<Rightarrow> outcome \<times> rexx \<times> world" where
  "linein w self file_path line_number exit_on_eof =
     (let path = resolve w file_path in
      case files w path of
        None \<Rightarrow>
          (case not_a_file self path (''File does not exist: '' @ path) w of
             (out, w') \<Rightarrow> (out, self, w'))
      | Some Directory \<Rightarrow>
          (case not_a_file self path (''Path is not a file: '' @ path) w of
             (out, w') \<Rightarrow> (out, self, w'))
      | Some (Regular a wr rmv c) \<Rightarrow>
          (let file_key = path;
               positions =
                 (if file_positions self file_key = None
                  then (file_positions self)(file_key \<mapsto> 0)
                  else file_positions self);
               self1 = self\<lparr>file_positions := positions\<rparr>;
               target_line =
                 (case line_number of
                    None \<Rightarrow> stored positions file_key + 1
                  | Some n \<Rightarrow> n)
           in case open_read w path of
                Inr lines \<Rightarrow>
                  (case scan lines 1 target_line of
                     Some (current_line, content) \<Rightarrow>
                       (Returned (Str (rstrip_nl content)),
                        self1\<lparr>file_positions := positions(file_key \<mapsto> current_line),
                              next_record := current_line\<rparr>,
                        w)
                   | None \<Rightarrow>
                       (if exit_on_eof \<and> exit_on_error self then Exited 0
                        else Returned (Num END_OF_FILE),
                        if line_number = None
                        then self1\<lparr>file_positions := positions(file_key \<mapsto> 0)\<rparr>
                        else self1,
                        w))
              | Inl EACCES \<Rightarrow>
                  (case report self (''Permission denied: '' @ path) FILE_NOT_FOUND w of
                     (out, w') \<Rightarrow> (out, self1, w'))
              | Inl e \<Rightarrow>
                  (case except_exception self path (OSFailure e path) w of
                     (out, w') \<Rightarrow> (out, self1, w'))))"

text \<open>
  \<open>rm(self, file_path)\<close>, lines 83 to 104. The first \<open>print\<close> stands before the
  \<open>try\<close>; the \<open>print\<close> of line 96 stands inside it, after the file is unlinked, so what
  it raises goes to the handler of lines 98 to 104 as a failure to unlink does.
\<close>

definition rm :: "world \<Rightarrow> rexx \<Rightarrow> string \<Rightarrow> outcome \<times> rexx \<times> world" where
  "rm w self file_path =
     (let path = resolve w file_path in
      case files w path of
        None \<Rightarrow>
          (case print_err self (''File does not exist (not deleted): '' @ path) w of
             Inl ex \<Rightarrow> (Raised ex, self, w)
           | Inr w' \<Rightarrow> (Returned (Num FILE_NOT_FOUND), self, w'))
      | Some node \<Rightarrow>
          (case unlink w path of
             Inr w1 \<Rightarrow>
               (case print_out self (''File successfully deleted: '' @ path) w1 of
                  Inr w2 \<Rightarrow> (Returned (Num 0), self, w2)
                | Inl ex \<Rightarrow>
                    (case report self
                            (''Error deleting file '' @ path @ '': '' @
                             exc_text w1 (PrintFailure (''File successfully deleted: '' @ path)))
                            1 w1 of
                       (out, w') \<Rightarrow> (out, self, w')))
           | Inl e \<Rightarrow>
               (case report self
                       (''Error deleting file '' @ path @ '': '' @ exc_text w (OSFailure e path))
                       1 w of
                  (out, w') \<Rightarrow> (out, self, w'))))"

text \<open>\<open>lineout(self, file_path, string, append=False)\<close>, lines 106 to 118.\<close>

definition lineout ::
  "world \<Rightarrow> rexx \<Rightarrow> string \<Rightarrow> string \<Rightarrow> bool \<Rightarrow> outcome \<times> rexx \<times> world" where
  "lineout w self file_path string append_mode =
     (case write_text w (resolve w file_path) append_mode (string @ [LF]) of
        Inr w' \<Rightarrow> (Returned (Num 0), self, w')
      | Inl e \<Rightarrow>
          (case report self
                  (''Error writing to file '' @ file_path @ '': '' @
                   exc_text w (OSFailure e file_path))
                  1 w of
             (out, w') \<Rightarrow> (out, self, w')))"

section \<open>The older \<open>linein\<close> of \<open>linein.py\<close> and \<open>RexxFunctions_old2.py\<close>\<close>

text \<open>
  The two files hold the same method but for the text printed when the file is missing,
  which is the first argument here. The object has one field, the table, and the key is
  \<open>str(file_path)\<close>, the path as given. \<open>ValueError\<close> is raised inside the \<open>try\<close> and
  matches neither handler (\<open>FileNotFoundError\<close>, \<open>IOError\<close>); the table keeps what was
  stored before the exception. The \<open>print\<close> stands inside the handler of
  \<open>FileNotFoundError\<close>, so what it raises leaves the method.
\<close>

definition linein_legacy ::
  "string \<Rightarrow> world \<Rightarrow> (string \<rightharpoonup> int) \<Rightarrow> string \<Rightarrow> int option
     \<Rightarrow> outcome \<times> (string \<rightharpoonup> int) \<times> world" where
  "linein_legacy not_found_text w file_positions0 file_path line_number =
     (let path = file_path;
          positions =
            (if file_positions0 path = None then file_positions0(path \<mapsto> 0)
             else file_positions0)
      in case (case line_number of
                 None \<Rightarrow>
                   Inr (positions(path \<mapsto> stored positions path + 1),
                        stored positions path + 1)
               | Some n \<Rightarrow> if n < 1 then Inl ValueError else Inr (positions, n)) of
           Inl ex \<Rightarrow> (Raised ex, positions, w)
         | Inr (positions1, read_line) \<Rightarrow>
             (case open_read w (resolve w file_path) of
                Inr lines \<Rightarrow>
                  (case scan lines 1 read_line of
                     Some (i, line) \<Rightarrow> (Returned (Str (rstrip_nl line)), positions1, w)
                   | None \<Rightarrow>
                       (Returned (Num END_OF_FILE),
                        if line_number = None then positions1(path \<mapsto> 0) else positions1,
                        w))
              | Inl ENOENT \<Rightarrow>
                  (case print_to_stdout not_found_text w of
                     Inr w' \<Rightarrow> (Returned (Num FILE_NOT_FOUND), positions1, w')
                   | Inl ex \<Rightarrow> (Raised ex, positions1, w))
              | Inl e \<Rightarrow> (Returned (Num END_OF_FILE), positions1, w)))"

definition linein_py ::
  "world \<Rightarrow> (string \<rightharpoonup> int) \<Rightarrow> string \<Rightarrow> int option
     \<Rightarrow> outcome \<times> (string \<rightharpoonup> int) \<times> world" where
  "linein_py w tbl file_path line_number =
     linein_legacy (''file '' @ file_path @ '' not found...'') w tbl file_path line_number"

definition linein_old2 ::
  "world \<Rightarrow> (string \<rightharpoonup> int) \<Rightarrow> string \<Rightarrow> int option
     \<Rightarrow> outcome \<times> (string \<rightharpoonup> int) \<times> world" where
  "linein_old2 w tbl file_path line_number =
     linein_legacy (''File does not exist: '' @ file_path) w tbl file_path line_number"

section \<open>Sequences of calls\<close>

text \<open>
  A program is a sequence of calls on one object. A call that does not return ends the
  sequence: \<open>sys.exit\<close> ends the process.
\<close>

datatype call = Linein string "int option" bool | Lineout string string bool | Rm string

fun step :: "call \<Rightarrow> world \<Rightarrow> rexx \<Rightarrow> outcome \<times> rexx \<times> world" where
  "step (Linein p n e) w self = linein w self p n e"
| "step (Lineout p s a) w self = lineout w self p s a"
| "step (Rm p) w self = rm w self p"

fun run :: "call list \<Rightarrow> world \<Rightarrow> rexx \<Rightarrow> outcome list \<times> rexx \<times> world" where
  "run [] w self = ([], self, w)"
| "run (c # cs) w self =
     (case step c w self of
        (Returned v, self', w') \<Rightarrow>
          (case run cs w' self' of (outs, self'', w'') \<Rightarrow> (Returned v # outs, self'', w''))
      | (out, self', w') \<Rightarrow> ([out], self', w'))"

text \<open>
  The keys that the \<open>linein\<close> calls of a run, of either kind, reach lines 47 to 49 with: the
  absolute paths that were regular files when read.
\<close>

definition regular_at :: "world \<Rightarrow> string \<Rightarrow> bool" where
  "regular_at w path =
     (case files w path of Some (Regular a wr rmv c) \<Rightarrow> True | _ \<Rightarrow> False)"

fun opened :: "call \<Rightarrow> world \<Rightarrow> string set" where
  "opened (Linein p n e) w = (if regular_at w (resolve w p) then {resolve w p} else {})"
| "opened (Lineout p s a) w = {}"
| "opened (Rm p) w = {}"

fun opened_by :: "call list \<Rightarrow> world \<Rightarrow> rexx \<Rightarrow> string set" where
  "opened_by [] w self = {}"
| "opened_by (c # cs) w self =
     opened c w \<union>
     (case step c w self of
        (Returned v, self', w') \<Rightarrow> opened_by cs w' self'
      | (out, self', w') \<Rightarrow> {})"

section \<open>Derived notions and a sample world\<close>

text \<open>
  The cursor of a file: the line number stored for its key, 0 when the key is missing
  (what line 51 of \<open>RexxFunctions.py\<close> reads after lines 48 and 49).
\<close>

definition cursor_of :: "rexx \<Rightarrow> string \<Rightarrow> int" where
  "cursor_of self key = stored (file_positions self) key"

text \<open>
  A world to run the functions in: the working directory is \<open>/w\<close>; \<open>f\<close> holds two lines,
  \<open>e\<close> is empty, \<open>x\<close> can be neither read nor unlinked, and \<open>d\<close> is a directory. Both
  streams accept every text, and the texts of exceptions are those of CPython on Linux for
  plain file names.
\<close>

fun demo_text :: "failure \<Rightarrow> string" where
  "demo_text (OSFailure ENOENT f) =
     ''[Errno 2] No such file or directory: '' @ [CHR 0x27] @ f @ [CHR 0x27]"
| "demo_text (OSFailure EISDIR f) = ''[Errno 21] Is a directory: '' @ [CHR 0x27] @ f @ [CHR 0x27]"
| "demo_text (OSFailure EACCES f) =
     ''[Errno 13] Permission denied: '' @ [CHR 0x27] @ f @ [CHR 0x27]"
| "demo_text (OSFailure EIO f) = ''[Errno 5] Input/output error: '' @ [CHR 0x27] @ f @ [CHR 0x27]"
| "demo_text (PrintFailure m) = ''I/O operation on closed file.''"

definition demo_world :: world where
  "demo_world =
     \<lparr>resolve = (\<lambda>p. ''/w/'' @ p),
      files = [''/w/f'' \<mapsto> Regular Granted True True (''ab'' @ [LF] @ ''cd'' @ [LF]),
               ''/w/e'' \<mapsto> Regular Granted True True [],
               ''/w/x'' \<mapsto> Regular Denied True False (''zz'' @ [LF]),
               ''/w/d'' \<mapsto> Directory],
      creatable = (\<lambda>p. True), stdout = [], stderr = [],
      stdout_accepts = (\<lambda>m. True), stderr_accepts = (\<lambda>m. True), exc_text = demo_text\<rparr>"


text \<open>Whether a path names a regular file that can be read.\<close>

definition readable_at :: "world \<Rightarrow> string \<Rightarrow> bool" where
  "readable_at w path =
     (case files w path of Some (Regular Granted wr rmv c) \<Rightarrow> True | _ \<Rightarrow> False)"



section \<open>The table after the first access\<close>

text \<open>
  Lines 48 and 49 store 0 for a key that is missing, so the number read back is the cursor of
  the file, and the table after them is the table with that cursor stored. The two
  \<open>linein\<close> functions are restated with the cursor named; the proofs below start from
  these equations.
\<close>

lemma first_access_table:
  "(if m k = None then m(k \<mapsto> 0) else m) = m(k \<mapsto> stored m k)"
  by (auto simp: stored_def)

lemma first_access_stored: "stored (m(k \<mapsto> v)) k = v"
  by (simp add: stored_def)

lemma stored_case: "stored m k = (case m k of None \<Rightarrow> 0 | Some v \<Rightarrow> v)"
  by (simp add: stored_def split: option.splits)

lemma cursor_of_case:
  "cursor_of self key = (case file_positions self key of None \<Rightarrow> 0 | Some v \<Rightarrow> v)"
  by (simp add: cursor_of_def stored_def split: option.splits)

lemma linein_unfold:
  "linein w self file_path line_number exit_on_eof =
     (let path = resolve w file_path in
      case files w path of
        None \<Rightarrow>
          (case not_a_file self path (''File does not exist: '' @ path) w of
             (out, w') \<Rightarrow> (out, self, w'))
      | Some Directory \<Rightarrow>
          (case not_a_file self path (''Path is not a file: '' @ path) w of
             (out, w') \<Rightarrow> (out, self, w'))
      | Some (Regular a wr rmv c) \<Rightarrow>
          (let file_key = path;
               cursor = (case file_positions self file_key of None \<Rightarrow> 0 | Some v \<Rightarrow> v);
               positions = (file_positions self)(file_key \<mapsto> cursor);
               self1 = self\<lparr>file_positions := positions\<rparr>;
               target_line = (case line_number of None \<Rightarrow> cursor + 1 | Some n \<Rightarrow> n)
           in case open_read w path of
                Inr lines \<Rightarrow>
                  (case scan lines 1 target_line of
                     Some (current_line, content) \<Rightarrow>
                       (Returned (Str (rstrip_nl content)),
                        self1\<lparr>file_positions := positions(file_key \<mapsto> current_line),
                              next_record := current_line\<rparr>,
                        w)
                   | None \<Rightarrow>
                       (if exit_on_eof \<and> exit_on_error self then Exited 0
                        else Returned (Num END_OF_FILE),
                        if line_number = None
                        then self1\<lparr>file_positions := positions(file_key \<mapsto> 0)\<rparr>
                        else self1,
                        w))
              | Inl EACCES \<Rightarrow>
                  (case report self (''Permission denied: '' @ path) FILE_NOT_FOUND w of
                     (out, w') \<Rightarrow> (out, self1, w'))
              | Inl e \<Rightarrow>
                  (case except_exception self path (OSFailure e path) w of
                     (out, w') \<Rightarrow> (out, self1, w'))))"
  unfolding linein_def Let_def first_access_table first_access_stored
  unfolding stored_case
  by (rule refl)

lemma linein_legacy_unfold:
  "linein_legacy not_found_text w file_positions0 file_path line_number =
     (let path = file_path;
          cursor = (case file_positions0 path of None \<Rightarrow> 0 | Some v \<Rightarrow> v);
          positions = file_positions0(path \<mapsto> cursor)
      in case (case line_number of
                 None \<Rightarrow> Inr (positions(path \<mapsto> cursor + 1), cursor + 1)
               | Some n \<Rightarrow> if n < 1 then Inl ValueError else Inr (positions, n)) of
           Inl ex \<Rightarrow> (Raised ex, positions, w)
         | Inr (positions1, read_line) \<Rightarrow>
             (case open_read w (resolve w file_path) of
                Inr lines \<Rightarrow>
                  (case scan lines 1 read_line of
                     Some (i, line) \<Rightarrow> (Returned (Str (rstrip_nl line)), positions1, w)
                   | None \<Rightarrow>
                       (Returned (Num END_OF_FILE),
                        if line_number = None then positions1(path \<mapsto> 0) else positions1,
                        w))
              | Inl ENOENT \<Rightarrow>
                  (case print_to_stdout not_found_text w of
                     Inr w' \<Rightarrow> (Returned (Num FILE_NOT_FOUND), positions1, w')
                   | Inl ex \<Rightarrow> (Raised ex, positions1, w))
              | Inl e \<Rightarrow> (Returned (Num END_OF_FILE), positions1, w)))"
  unfolding linein_legacy_def Let_def first_access_table first_access_stored
  unfolding stored_case
  by (rule refl)

section \<open>Handlers: outcome, object and world\<close>

lemma with_object [simp]:
  "fst (case x of (out, w') \<Rightarrow> (out, s, w')) = fst x"
  "fst (snd (case x of (out, w') \<Rightarrow> (out, s, w'))) = s"
  "snd (snd (case x of (out, w') \<Rightarrow> (out, s, w'))) = snd x"
  by (simp_all split: prod.splits)

lemma print_err_accepted:
  "verbose self \<longrightarrow> stderr_accepts w msg \<Longrightarrow>
   print_err self msg w = Inr (if verbose self then w\<lparr>stderr := stderr w @ [msg]\<rparr> else w)"
  by (simp add: print_err_def print_to_stderr_def)



lemma report_outcome:
  "fst (report self msg v w) = Raised ValueError \<or>
   fst (report self msg v w) = exit_or_return self v"
  by (simp add: report_def print_err_def print_to_stderr_def)

section \<open>Slices with bounds that are not negative\<close>

lemma slice_index_nonneg: "0 \<le> i \<Longrightarrow> slice_index n i = min n (nat i)"
  by (simp add: slice_index_def)

lemma py_slice_prefix: "0 \<le> i \<Longrightarrow> py_slice s None (Some i) = take (nat i) s"
  by (auto simp: py_slice_def slice_index_nonneg Let_def min_def)

lemma py_slice_suffix: "0 \<le> i \<Longrightarrow> py_slice s (Some i) None = drop (nat i) s"
  by (auto simp: py_slice_def slice_index_nonneg Let_def min_def)

section \<open>insert\<close>

text \<open>
  C9. For every \<open>new_str\<close>, \<open>original_str\<close> and integer \<open>position\<close>, \<open>insert\<close> puts
  \<open>new_str\<close> before the 1-based \<open>position\<close> of \<open>original_str\<close>: the result is the first
  \<open>position - 1\<close> characters of the original, then \<open>new_str\<close>, then the rest of the
  original. A position below 1 is clamped to 1 (no error is raised; the function returns a
  plain string), so \<open>new_str\<close> then comes first. In particular
  \<open>insert("_0000", "file.txt", 5) = "file_0000.txt"\<close>.
\<close>

theorem insert_before_position:
  "insert_str new_str s p = take (nat (max 1 p - 1)) s @ new_str @ drop (nat (max 1 p - 1)) s
   \<and> insert_str new_str s p = insert_str new_str s (max 1 p)
   \<and> (if p < 1 then insert_str new_str s p = new_str @ s
       else length (insert_str new_str s p) = length s + length new_str)
   \<and> insert_str ''_0000'' ''file.txt'' 5 = ''file_0000.txt''"
proof -
  have shape: "insert_str new_str s q =
      take (nat (max 1 q - 1)) s @ new_str @ drop (nat (max 1 q - 1)) s" for q
    by (simp add: insert_str_def Let_def py_slice_prefix py_slice_suffix max_def)
  have clamp: "insert_str new_str s p = insert_str new_str s (max 1 p)"
    by (simp add: shape)
  have low: "p < 1 \<Longrightarrow> insert_str new_str s p = new_str @ s"
    by (simp add: shape max_def)
  have len: "length (insert_str new_str s p) = length s + length new_str"
    by (simp add: shape)
  have ex: "insert_str ''_0000'' ''file.txt'' 5 = ''file_0000.txt''"
    by (simp add: insert_str_def Let_def py_slice_def slice_index_def)
  have cases: "if p < 1 then insert_str new_str s p = new_str @ s
      else length (insert_str new_str s p) = length s + length new_str"
    using low len by simp
  from shape [of p] clamp cases ex show ?thesis
    by blast
qed

theorem insert_before_position_witness:
  "insert_str ''ab'' ''xyz'' (-3) = ''abxyz'' \<and> insert_str ''ab'' ''xyz'' 3 = ''xyabz''
   \<and> insert_str ''ab'' ''xyz'' 9 = ''xyzab''"
  using insert_before_position [of "''ab''" "''xyz''" "-3"]
    insert_before_position [of "''ab''" "''xyz''" 3]
    insert_before_position [of "''ab''" "''xyz''" 9]
  by simp

section \<open>substr and delstr with an explicit length of 0\<close>

text \<open>
  C10. For every string \<open>s\<close> and every \<open>start\<close> with \<open>1 \<le> start \<le> length s\<close>,
  \<open>substr(s, start, 0)\<close> returns the suffix of \<open>s\<close> from \<open>start\<close>, the same result as
  with the length omitted, and not the empty string; \<open>delstr(s, start, 0)\<close> deletes from
  \<open>start\<close> to the end of \<open>s\<close>, the same result as with the length omitted, and not zero
  characters (the result is not \<open>s\<close>). Both treat an explicit length of 0 as an omitted one.
\<close>

theorem zero_length_is_omitted_length:
  assumes "1 \<le> start" and "start \<le> int (length s)"
  shows "substr s start (Some 0) = Inr (drop (nat (start - 1)) s)
       \<and> substr s start (Some 0) = substr s start None
       \<and> substr s start (Some 0) \<noteq> Inr []
       \<and> delstr s start (Some 0) = Inr (take (nat (start - 1)) s)
       \<and> delstr s start (Some 0) = delstr s start None
       \<and> delstr s start (Some 0) \<noteq> Inr s"
proof -
  from assms have k: "nat (start - 1) < length s"
    by simp
  have sub: "substr s start (Some 0) = Inr (drop (nat (start - 1)) s)"
    using assms(1) by (simp add: substr_def py_slice_suffix)
  have sub_none: "substr s start None = Inr (drop (nat (start - 1)) s)"
    using assms(1) by (simp add: substr_def py_slice_suffix)
  have nonempty: "drop (nat (start - 1)) s \<noteq> []"
    using k by simp
  have del: "delstr s start (Some 0) = Inr (take (nat (start - 1)) s)"
    using assms(1) by (simp add: delstr_def py_slice_prefix)
  have del_none: "delstr s start None = Inr (take (nat (start - 1)) s)"
    using assms(1) by (simp add: delstr_def py_slice_prefix)
  have shorter: "length (take (nat (start - 1)) s) < length s"
    using k by simp
  then have changed: "take (nat (start - 1)) s \<noteq> s"
    by (metis less_irrefl)
  from sub sub_none nonempty del del_none changed show ?thesis
    by simp
qed

theorem zero_length_is_omitted_length_witness:
  "(1::int) \<le> 2 \<and> (2::int) \<le> int (length ''HELLO'')
   \<and> substr ''HELLO'' 2 (Some 0) = Inr ''ELLO''
   \<and> substr ''HELLO'' 2 (Some 0) = substr ''HELLO'' 2 None
   \<and> delstr ''HELLO'' 2 (Some 0) = Inr ''H''
   \<and> delstr ''HELLO'' 2 (Some 0) = delstr ''HELLO'' 2 None"
  using zero_length_is_omitted_length [of 2 "''HELLO''"]
  by auto

section \<open>The scan of a file and one call of \<open>linein\<close>\<close>


lemma scan_found: "i \<le> t \<Longrightarrow> t < i + int (length ls) \<Longrightarrow> scan ls i t = Some (t, ls ! nat (t - i))"
proof (induction ls arbitrary: i)
  case Nil then show ?case by simp
next
  case (Cons l ls)
  show ?case
  proof (cases "i = t")
    case True then show ?thesis by simp
  next
    case False
    with Cons.prems have b: "i + 1 \<le> t" "t < (i + 1) + int (length ls)" by simp_all
    from False Cons.prems have "nat (t - i) = Suc (nat (t - (i + 1)))" by linarith
    with Cons.IH [OF b] False show ?thesis
      by simp
  qed
qed

lemma scan_none: "t < i \<or> i + int (length ls) \<le> t \<Longrightarrow> scan ls i t = None"
  by (induction ls arbitrary: i) auto

lemma linein_found:
  assumes f: "files w (resolve w p) = Some (Regular Granted wr rmv c)"
    and t: "t = (case n of None \<Rightarrow> cursor_of self (resolve w p) + 1 | Some k \<Rightarrow> k)"
    and r: "1 \<le> t" "t \<le> int (length (text_lines c))"
  shows "linein w self p n e =
    (Returned (Str (rstrip_nl (text_lines c ! nat (t - 1)))),
     self\<lparr>file_positions := (file_positions self)(resolve w p \<mapsto> t), next_record := t\<rparr>, w)"
proof -
  from r have "scan (text_lines c) 1 t = Some (t, text_lines c ! nat (t - 1))"
    by (intro scan_found) simp_all
  with f t show ?thesis
    by (cases n) (simp_all add: linein_unfold Let_def open_read_def cursor_of_case)
qed

lemma linein_eof:
  assumes f: "files w (resolve w p) = Some (Regular Granted wr rmv c)"
    and t: "t = (case n of None \<Rightarrow> cursor_of self (resolve w p) + 1 | Some k \<Rightarrow> k)"
    and r: "t < 1 \<or> int (length (text_lines c)) < t"
  shows "linein w self p n e =
    (if e \<and> exit_on_error self then Exited 0 else Returned (Num END_OF_FILE),
     self\<lparr>file_positions := (file_positions self)
        (resolve w p \<mapsto> (if n = None then 0 else cursor_of self (resolve w p)))\<rparr>, w)"
proof -
  from r have "scan (text_lines c) 1 t = None"
    by (intro scan_none) auto
  with f t show ?thesis
    by (cases n) (simp_all add: linein_unfold Let_def open_read_def cursor_of_case)
qed



lemma cursor_of_upd [simp]:
  "cursor_of (self\<lparr>file_positions := (file_positions self)(k \<mapsto> v), next_record := r\<rparr>) k = v"
  "cursor_of (self\<lparr>file_positions := (file_positions self)(k \<mapsto> v)\<rparr>) k = v"
  by (simp_all add: cursor_of_case)

lemma run_to_eof:
  assumes f: "files w (resolve w p) = Some (Regular Granted wr rmv c)"
    and x: "\<not> (e \<and> exit_on_error self)"
    and j: "cursor_of self (resolve w p) = int j"
    and r: "j + r = length (text_lines c)"
  shows "fst (run (replicate (Suc r) (Linein p None e)) w self) =
           map (\<lambda>l. Returned (Str (rstrip_nl l))) (drop j (text_lines c)) @
           [Returned (Num END_OF_FILE)]
       \<and> file_positions (fst (snd (run (replicate (Suc r) (Linein p None e)) w self)))
           (resolve w p) = Some 0
       \<and> exit_on_error (fst (snd (run (replicate (Suc r) (Linein p None e)) w self))) =
           exit_on_error self
       \<and> snd (snd (run (replicate (Suc r) (Linein p None e)) w self)) = w"
  using x j r
proof (induction r arbitrary: self j)
  case 0
  then have "int (length (text_lines c)) < cursor_of self (resolve w p) + 1"
    by simp
  then have "linein w self p None e =
      (if e \<and> exit_on_error self then Exited 0 else Returned (Num END_OF_FILE),
       self\<lparr>file_positions := (file_positions self)(resolve w p \<mapsto> 0)\<rparr>, w)"
    using linein_eof [OF f, where t = "cursor_of self (resolve w p) + 1" and n = None and self = self and e = e] by simp
  with 0 show ?case
    by simp
next
  case (Suc r)
  let ?t = "int j + 1"
  let ?self' = "self\<lparr>file_positions := (file_positions self)(resolve w p \<mapsto> ?t),
                      next_record := ?t\<rparr>"
  from Suc.prems have lt: "j < length (text_lines c)"
    by simp
  then have call: "linein w self p None e =
      (Returned (Str (rstrip_nl (text_lines c ! j))), ?self', w)"
    using linein_found [OF f, where t = ?t and n = None and self = self and e = e] Suc.prems(2) by simp
  have x': "\<not> (e \<and> exit_on_error ?self')"
    using Suc.prems(1) by simp
  have j': "cursor_of ?self' (resolve w p) = int (Suc j)"
    by simp
  have r': "Suc j + r = length (text_lines c)"
    using Suc.prems(3) by simp
  note ih = Suc.IH [OF x' j' r']
  have d: "drop j (text_lines c) = text_lines c ! j # drop (Suc j) (text_lines c)"
    using lt by (simp add: Cons_nth_drop_Suc)
  obtain outs s2 w2 where rn: "run (replicate (Suc r) (Linein p None e)) w ?self' = (outs, s2, w2)"
    by (cases "run (replicate (Suc r) (Linein p None e)) w ?self'") auto
  have "run (replicate (Suc (Suc r)) (Linein p None e)) w self =
      (Returned (Str (rstrip_nl (text_lines c ! j))) # outs, s2, w2)"
    using call rn by simp
  with ih rn d show ?case
    by simp
qed


section \<open>Lines and their terminators\<close>

lemma rstrip_nl_terminated: "LF \<notin> set c \<Longrightarrow> rstrip_nl (c @ [LF]) = c"
proof -
  assume a: "LF \<notin> set c"
  have "dropWhile (\<lambda>x. x = LF) (rev c) = rev c"
    using a by (cases "rev c") (auto simp: hd_rev)
  then show ?thesis
    by (simp add: rstrip_nl_def)
qed

lemma rstrip_nl_plain: "LF \<notin> set b \<Longrightarrow> rstrip_nl b = b"
proof -
  assume a: "LF \<notin> set b"
  have "dropWhile (\<lambda>x. x = LF) (rev b) = rev b"
    using a by (cases "rev b") (auto simp: hd_rev)
  then show ?thesis
    by (simp add: rstrip_nl_def)
qed

lemma text_lines_from_shape:
  "LF \<notin> set cur \<Longrightarrow> CR \<notin> set cur \<Longrightarrow> l \<in> set (text_lines_from cur c) \<Longrightarrow>
   \<exists>b. LF \<notin> set b \<and> CR \<notin> set b \<and> (l = b @ [LF] \<or> l = b)"
proof (induction cur c rule: text_lines_from.induct)
  case (1 cur)
  then show ?case by (auto split: if_splits)
next
  case (2 cur c cs)
  show ?case
  proof (cases "c = LF")
    case True
    with 2 show ?thesis by auto
  next
    case nlf: False
    show ?thesis
    proof (cases "c = CR")
      case True
      with 2 nlf show ?thesis
        by (cases cs) (auto split: if_splits)
    next
      case False
      with 2 nlf show ?thesis by auto
    qed
  qed
qed

lemma text_lines_stripped:
  assumes "l \<in> set (text_lines c)"
  shows "LF \<notin> set (rstrip_nl l) \<and> (l = rstrip_nl l @ [LF] \<or> l = rstrip_nl l)"
proof -
  from text_lines_from_shape [of "[]" l c] assms obtain b
    where b: "LF \<notin> set b" "l = b @ [LF] \<or> l = b"
    by (auto simp: text_lines_def)
  from b(2) show ?thesis
  proof
    assume "l = b @ [LF]"
    with b(1) show ?thesis by (simp add: rstrip_nl_terminated)
  next
    assume "l = b"
    with b(1) show ?thesis by (simp add: rstrip_nl_plain)
  qed
qed

section \<open>Sequential reads up to the end of the file\<close>

text \<open>
  C2. For every readable regular file with \<open>N\<close> lines whose cursor starts at 0 (its key
  missing or holding 0), in a configuration where the end of the file returns the sentinel
  (\<open>exit_on_eof\<close> and \<open>exit_on_error\<close> are not both set), \<open>N + 1\<close> calls of \<open>linein\<close>
  with no line number return the \<open>N\<close> lines in order, each with its trailing newline
  stripped, and then \<open>END_OF_FILE\<close>; after the last of them the cursor of the file is 0,
  and the next sequential call returns line 1 again (\<open>END_OF_FILE\<close> again when the file
  has no line). Stripping takes the one terminator off a line that has one, and what is
  returned holds no newline.
\<close>

theorem sequential_reads_then_eof:
  assumes "files w (resolve w p) = Some (Regular Granted wr rmv c)"
    and "cursor_of self (resolve w p) = 0"
    and "\<not> (e \<and> exit_on_error self)"
  shows "fst (run (replicate (Suc (length (text_lines c))) (Linein p None e)) w self) =
           map (\<lambda>l. Returned (Str (rstrip_nl l))) (text_lines c) @
           [Returned (Num END_OF_FILE)]
       \<and> file_positions
           (fst (snd (run (replicate (Suc (length (text_lines c))) (Linein p None e)) w self)))
           (resolve w p) = Some 0
       \<and> fst (linein
           (snd (snd (run (replicate (Suc (length (text_lines c))) (Linein p None e)) w self)))
           (fst (snd (run (replicate (Suc (length (text_lines c))) (Linein p None e)) w self)))
           p None e) =
         (case text_lines c of
            [] \<Rightarrow> Returned (Num END_OF_FILE)
          | l # ls \<Rightarrow> Returned (Str (rstrip_nl l)))
       \<and> (\<forall>l \<in> set (text_lines c).
            LF \<notin> set (rstrip_nl l) \<and> (l = rstrip_nl l @ [LF] \<or> l = rstrip_nl l))"
proof -
  let ?r = "run (replicate (Suc (length (text_lines c))) (Linein p None e)) w self"
  let ?s = "fst (snd ?r)"
  have j: "cursor_of self (resolve w p) = int 0"
    using assms(2) by simp
  have r: "0 + length (text_lines c) = length (text_lines c)"
    by simp
  note all = run_to_eof [OF assms(1) assms(3) j r]
  then have outs: "fst ?r = map (\<lambda>l. Returned (Str (rstrip_nl l))) (text_lines c) @
      [Returned (Num END_OF_FILE)]"
    by simp
  from all have cur: "file_positions ?s (resolve w p) = Some 0"
    by blast
  from all have x: "exit_on_error ?s = exit_on_error self"
    by blast
  from all have w: "snd (snd ?r) = w"
    by blast
  have c0: "cursor_of ?s (resolve w p) = 0"
    using cur by (simp add: cursor_of_case)
  have nxt: "fst (linein w ?s p None e) =
      (case text_lines c of
         [] \<Rightarrow> Returned (Num END_OF_FILE)
       | l # ls \<Rightarrow> Returned (Str (rstrip_nl l)))"
  proof (cases "text_lines c")
    case Nil
    then show ?thesis
      using linein_eof [OF assms(1), where t = 1 and n = None and self = ?s and e = e]
        c0 x assms(3) by simp
  next
    case (Cons l ls)
    then show ?thesis
      using linein_found [OF assms(1), where t = 1 and n = None and self = ?s and e = e] c0
      by simp
  qed
  have strip: "\<forall>l \<in> set (text_lines c).
      LF \<notin> set (rstrip_nl l) \<and> (l = rstrip_nl l @ [LF] \<or> l = rstrip_nl l)"
    using text_lines_stripped by blast
  from outs cur nxt w have "fst ?r = map (\<lambda>l. Returned (Str (rstrip_nl l))) (text_lines c) @
      [Returned (Num END_OF_FILE)]
    \<and> file_positions ?s (resolve w p) = Some 0
    \<and> fst (linein (snd (snd ?r)) ?s p None e) =
      (case text_lines c of
         [] \<Rightarrow> Returned (Num END_OF_FILE)
       | l # ls \<Rightarrow> Returned (Str (rstrip_nl l)))"
    by simp
  with strip show ?thesis
    by blast
qed

theorem sequential_reads_then_eof_witness:
  "fst (run (replicate 3 (Linein ''f'' None False)) demo_world (init_rexx True True)) =
     [Returned (Str ''ab''), Returned (Str ''cd''), Returned (Num END_OF_FILE)]
   \<and> file_positions
        (fst (snd (run (replicate 3 (Linein ''f'' None False)) demo_world (init_rexx True True))))
        ''/w/f'' = Some 0
   \<and> fst (linein
        (snd (snd (run (replicate 3 (Linein ''f'' None False)) demo_world (init_rexx True True))))
        (fst (snd (run (replicate 3 (Linein ''f'' None False)) demo_world (init_rexx True True))))
        ''f'' None False) = Returned (Str ''ab'')"
proof -
  have f: "files demo_world (resolve demo_world ''f'') =
      Some (Regular Granted True True (''ab'' @ [LF] @ ''cd'' @ [LF]))"
    by (simp add: demo_world_def)
  have c: "cursor_of (init_rexx True True) (resolve demo_world ''f'') = 0"
    by (simp add: cursor_of_case init_rexx_def)
  have x: "\<not> (False \<and> exit_on_error (init_rexx True True))"
    by simp
  have t: "text_lines (''ab'' @ [LF] @ ''cd'' @ [LF]) = [''ab'' @ [LF], ''cd'' @ [LF]]"
    by (simp add: text_lines_def)
  have k: "resolve demo_world ''f'' = ''/w/f''"
    by (simp add: demo_world_def)
  have s: "rstrip_nl (''ab'' @ [LF]) = ''ab''" "rstrip_nl (''cd'' @ [LF]) = ''cd''"
    by (simp_all add: rstrip_nl_def)
  have n: "Suc (length [''ab'' @ [LF], ''cd'' @ [LF]]) = 3"
    by simp
  show ?thesis
    using sequential_reads_then_eof [OF f c x] unfolding t n k list.map list.case s
    by simp
qed

section \<open>The end of the file and the two switches\<close>

text \<open>
  C5, as the code has it. A sequential read that reaches the end of the file resets the cursor
  to 0, and ends the process with status 0 exactly when \<open>exit_on_eof\<close> and
  \<open>exit_on_error\<close> are both set (line 63: \<open>if exit_on_eof and self.exit_on_error\<close>);
  with either of them unset it returns \<open>END_OF_FILE\<close>. The claim that \<open>exit_on_eof\<close>
  ends the process whatever \<open>exit_on_error\<close> is fails on the empty file \<open>e\<close> with
  \<open>exit_on_error = False\<close>.
\<close>

theorem eof_exit_needs_both_switches:
  assumes "files w (resolve w p) = Some (Regular Granted wr rmv c)"
    and "int (length (text_lines c)) \<le> cursor_of self (resolve w p)"
  shows "fst (linein w self p None e) =
           (if e \<and> exit_on_error self then Exited 0 else Returned (Num END_OF_FILE))
       \<and> file_positions (fst (snd (linein w self p None e))) (resolve w p) = Some 0"
  using linein_eof [OF assms(1), where t = "cursor_of self (resolve w p) + 1"
      and n = None and self = self and e = e] assms(2)
  by simp

theorem eof_exit_needs_both_switches_witness:
  "fst (linein demo_world (init_rexx True True) ''e'' None True) = Exited 0
   \<and> fst (linein demo_world (init_rexx True True) ''e'' None False) =
       Returned (Num END_OF_FILE)
   \<and> file_positions (fst (snd (linein demo_world (init_rexx True True) ''e'' None True)))
       ''/w/e'' = Some 0"
proof -
  have f: "files demo_world (resolve demo_world ''e'') = Some (Regular Granted True True [])"
    by (simp add: demo_world_def)
  have c: "int (length (text_lines [])) \<le>
      cursor_of (init_rexx True True) (resolve demo_world ''e'')"
    by (simp add: text_lines_def cursor_of_case init_rexx_def)
  have k: "resolve demo_world ''e'' = ''/w/e''"
    by (simp add: demo_world_def)
  have x: "exit_on_error (init_rexx True True)"
    by (simp add: init_rexx_def)
  show ?thesis
    using eof_exit_needs_both_switches [OF f c, of True]
      eof_exit_needs_both_switches [OF f c, of False] x
    unfolding k by simp
qed

theorem eof_exit_counterexample:
  "fst (linein demo_world (init_rexx False True) ''e'' None True) = Returned (Num END_OF_FILE)
   \<and> fst (linein demo_world (init_rexx False True) ''e'' None True) \<noteq> Exited 0"
  by code_simp

section \<open>What one call of \<open>linein\<close> does to the cursor table\<close>

lemma linein_other_keys:
  "q \<noteq> resolve w p \<Longrightarrow>
   file_positions (fst (snd (linein w self p n e))) q = file_positions self q"
  by (simp add: linein_unfold Let_def exit_or_return_def
      split: option.splits fnode.splits sum.splits os_error.splits prod.splits)

lemma linein_not_regular:
  "\<not> regular_at w (resolve w p) \<Longrightarrow> fst (snd (linein w self p n e)) = self"
  by (simp add: linein_unfold Let_def regular_at_def split: option.splits fnode.splits)

lemma linein_regular_key:
  "regular_at w (resolve w p) \<Longrightarrow>
   file_positions (fst (snd (linein w self p n e))) (resolve w p) \<noteq> None"
  by (simp add: linein_unfold Let_def regular_at_def
      split: option.splits fnode.splits sum.splits os_error.splits prod.splits)

lemma linein_legacy_positional_table:
  "fst (snd (linein_legacy msg w tbl p (Some k))) = (if tbl p = None then tbl(p \<mapsto> 0) else tbl)"
  by (auto simp: linein_legacy_unfold Let_def
      split: option.splits sum.splits os_error.splits prod.splits)

lemma step_keys:
  "dom (file_positions (fst (snd (step c w self)))) = dom (file_positions self) \<union> opened c w"
proof (cases c)
  case (Linein p n e)
  show ?thesis
  proof (cases "regular_at w (resolve w p)")
    case True
    have "q \<in> dom (file_positions (fst (snd (linein w self p n e)))) \<longleftrightarrow>
        q \<in> insert (resolve w p) (dom (file_positions self))" for q
    proof (cases "q = resolve w p")
      case True
      with \<open>regular_at w (resolve w p)\<close> show ?thesis
        using linein_regular_key [of w p self n e] by (simp add: domIff)
    next
      case False
      then show ?thesis
        using linein_other_keys [of q w p self n e] by (simp add: domIff)
    qed
    then have "dom (file_positions (fst (snd (linein w self p n e)))) =
        insert (resolve w p) (dom (file_positions self))"
      by blast
    with True Linein show ?thesis
      by simp
  next
    case False
    with Linein show ?thesis
      by (simp add: linein_not_regular)
  qed
next
  case (Lineout p s a)
  then show ?thesis
    by (simp add: lineout_def split: sum.splits)
next
  case (Rm p)
  then show ?thesis
    by (simp add: rm_def Let_def split: option.splits sum.splits)
qed

lemma run_keys:
  "dom (file_positions (fst (snd (run cs w self)))) =
     dom (file_positions self) \<union> opened_by cs w self"
proof (induction cs arbitrary: w self)
  case Nil
  show ?case by simp
next
  case (Cons c cs)
  obtain out s1 w1 where st: "step c w self = (out, s1, w1)"
    by (cases "step c w self") auto
  have k1: "dom (file_positions s1) = dom (file_positions self) \<union> opened c w"
    using step_keys [of c w self] st by simp
  show ?case
  proof (cases out)
    case (Returned v)
    obtain outs s2 w2 where rn: "run cs w1 s1 = (outs, s2, w2)"
      by (cases "run cs w1 s1") auto
    have "dom (file_positions s2) = dom (file_positions s1) \<union> opened_by cs w1 s1"
      using Cons.IH [of w1 s1] rn by simp
    with k1 st Returned rn show ?thesis
      by auto
  next
    case (Exited n)
    with k1 st show ?thesis by simp
  next
    case (Raised x)
    with k1 st show ?thesis by simp
  qed
qed

section \<open>Positional reads and the cursor table\<close>

lemma linein_legacy_positional:
  assumes "files w (resolve w p) = Some (Regular Granted wr rmv c)" and "1 \<le> k"
  shows "fst (linein_legacy msg w tbl p (Some k)) =
     (if k \<le> int (length (text_lines c))
      then Returned (Str (rstrip_nl (text_lines c ! nat (k - 1))))
      else Returned (Num END_OF_FILE))"
proof (cases "k \<le> int (length (text_lines c))")
  case True
  with assms(2) have "scan (text_lines c) 1 k = Some (k, text_lines c ! nat (k - 1))"
    by (intro scan_found) simp_all
  with assms True show ?thesis
    by (simp add: linein_legacy_unfold Let_def open_read_def)
next
  case False
  then have "scan (text_lines c) 1 k = None"
    by (intro scan_none) simp
  with assms False show ?thesis
    by (simp add: linein_legacy_unfold Let_def open_read_def)
qed

lemma linein_legacy_next_sequential:
  "fst (linein_legacy msg w (if tbl p = None then tbl(p \<mapsto> 0) else tbl) p None) =
   fst (linein_legacy msg w tbl p None)"
  by (cases "tbl p")
    (simp_all add: linein_legacy_unfold Let_def
      split: sum.splits os_error.splits option.splits prod.splits)

text \<open>
  C1. The claim: a read with an explicit line number \<open>k \<ge> 1\<close> leaves the cursor table as it
  was, whether the line is found or the read passes the end of the file, so that a later
  sequential read is where it would have been. \<open>linein.py\<close> does so but for storing 0 under a
  key that was missing, which leaves the cursor of the file, 0, as it was: its next
  sequential read returns what it would have returned before. \<open>RexxFunctions.linein\<close> does
  the same when the read passes the end of the file (line 61 guards the reset with
  \<open>if line_number is None\<close>). When the line is found it does not: line 56 stores \<open>k\<close> as
  the cursor of the file for positional reads too, and the next sequential read continues
  after line \<open>k\<close>.
\<close>

theorem positional_read_moves_cursor:
  assumes f: "files w (resolve w p) = Some (Regular Granted wr rmv c)"
    and k: "1 \<le> k" "k \<le> int (length (text_lines c))"
  shows "fst (linein w self p (Some k) e) =
           Returned (Str (rstrip_nl (text_lines c ! nat (k - 1))))
       \<and> file_positions (fst (snd (linein w self p (Some k) e))) =
           (file_positions self)(resolve w p \<mapsto> k)
       \<and> fst (linein w (fst (snd (linein w self p (Some k) e))) p None e) =
           (if k < int (length (text_lines c))
            then Returned (Str (rstrip_nl (text_lines c ! nat k)))
            else if e \<and> exit_on_error self then Exited 0
            else Returned (Num END_OF_FILE))
       \<and> (int (length (text_lines c)) < j \<longrightarrow>
            file_positions (fst (snd (linein w self p (Some j) e))) =
              (file_positions self)(resolve w p \<mapsto> cursor_of self (resolve w p)))
       \<and> fst (linein_py w tbl p (Some k)) = fst (linein w self p (Some k) e)
       \<and> fst (snd (linein_py w tbl p (Some k))) = (if tbl p = None then tbl(p \<mapsto> 0) else tbl)
       \<and> fst (linein_py w (fst (snd (linein_py w tbl p (Some k)))) p None) =
           fst (linein_py w tbl p None)"
proof -
  let ?s = "self\<lparr>file_positions := (file_positions self)(resolve w p \<mapsto> k), next_record := k\<rparr>"
  have call: "linein w self p (Some k) e =
      (Returned (Str (rstrip_nl (text_lines c ! nat (k - 1)))), ?s, w)"
    using linein_found [OF f, where t = k and n = "Some k" and self = self and e = e] k
    by simp
  have c: "cursor_of ?s (resolve w p) = k"
    by simp
  have nxt: "fst (linein w ?s p None e) =
      (if k < int (length (text_lines c))
       then Returned (Str (rstrip_nl (text_lines c ! nat k)))
       else if e \<and> exit_on_error self then Exited 0
       else Returned (Num END_OF_FILE))"
  proof (cases "k < int (length (text_lines c))")
    case True
    then show ?thesis
      using linein_found [OF f, where t = "k + 1" and n = None and self = ?s and e = e] c k
      by simp
  next
    case False
    then show ?thesis
      using linein_eof [OF f, where t = "k + 1" and n = None and self = ?s and e = e] c k
      by simp
  qed
  have eof: "file_positions (fst (snd (linein w self p (Some j) e))) =
      (file_positions self)(resolve w p \<mapsto> cursor_of self (resolve w p))"
    if "int (length (text_lines c)) < j"
    using linein_eof [OF f, where t = j and n = "Some j" and self = self and e = e] that
    by simp
  have old: "fst (linein_py w tbl p (Some k)) =
      Returned (Str (rstrip_nl (text_lines c ! nat (k - 1))))"
    using linein_legacy_positional [OF f k(1)] k(2) by (simp add: linein_py_def)
  have tab: "fst (snd (linein_py w tbl p (Some k))) = (if tbl p = None then tbl(p \<mapsto> 0) else tbl)"
    by (simp add: linein_py_def linein_legacy_positional_table)
  have same: "fst (linein_py w (fst (snd (linein_py w tbl p (Some k)))) p None) =
      fst (linein_py w tbl p None)"
    unfolding tab by (simp add: linein_py_def linein_legacy_next_sequential)
  from call nxt eof old tab same show ?thesis
    by simp
qed

theorem positional_read_moves_cursor_witness:
  "fst (linein demo_world (init_rexx False True) ''f'' None False) = Returned (Str ''ab'')
   \<and> fst (linein demo_world (init_rexx False True) ''f'' (Some 2) False) = Returned (Str ''cd'')
   \<and> file_positions (fst (snd (linein demo_world (init_rexx False True) ''f'' (Some 2) False)))
       ''/w/f'' = Some 2
   \<and> fst (linein demo_world
        (fst (snd (linein demo_world (init_rexx False True) ''f'' (Some 2) False)))
        ''f'' None False) = Returned (Num END_OF_FILE)
   \<and> fst (snd (linein_py demo_world Map.empty ''f'' (Some 2))) ''f'' = Some 0
   \<and> fst (linein_py demo_world (fst (snd (linein_py demo_world Map.empty ''f'' (Some 2))))
        ''f'' None) = Returned (Str ''ab'')"
proof -
  have f: "files demo_world (resolve demo_world ''f'') =
      Some (Regular Granted True True (''ab'' @ [LF] @ ''cd'' @ [LF]))"
    by (simp add: demo_world_def)
  have t: "text_lines (''ab'' @ [LF] @ ''cd'' @ [LF]) = [''ab'' @ [LF], ''cd'' @ [LF]]"
    by (simp add: text_lines_def)
  have k: "(1::int) \<le> 2" "(2::int) \<le> int (length (text_lines (''ab'' @ [LF] @ ''cd'' @ [LF])))"
    by (simp_all add: text_lines_def)
  have r: "resolve demo_world ''f'' = ''/w/f''"
    by (simp add: demo_world_def)
  have before: "fst (linein demo_world (init_rexx False True) ''f'' None False) =
      Returned (Str ''ab'')"
    by code_simp
  have legacy: "fst (linein_py demo_world Map.empty ''f'' None) = Returned (Str ''ab'')"
    by code_simp
  have x: "\<not> exit_on_error (init_rexx False True)"
    by (simp add: init_rexx_def)
  note T = positional_read_moves_cursor [OF f k, where self = "init_rexx False True"
      and e = False and tbl = Map.empty and j = 3]
  from T have
    a: "fst (linein demo_world (init_rexx False True) ''f'' (Some 2) False) = Returned (Str ''cd'')"
    and b: "file_positions
      (fst (snd (linein demo_world (init_rexx False True) ''f'' (Some 2) False))) ''/w/f'' = Some 2"
    and c: "fst (linein demo_world
        (fst (snd (linein demo_world (init_rexx False True) ''f'' (Some 2) False)))
        ''f'' None False) = Returned (Num END_OF_FILE)"
    and d: "fst (snd (linein_py demo_world Map.empty ''f'' (Some 2))) ''f'' = Some 0"
    using x unfolding r t by (simp_all add: rstrip_nl_def)
  from T have
    e: "fst (linein_py demo_world (fst (snd (linein_py demo_world Map.empty ''f'' (Some 2))))
        ''f'' None) = fst (linein_py demo_world Map.empty ''f'' None)"
    by blast
  from a b c d e before legacy show ?thesis
    by (simp only:)
qed

section \<open>Which keys the cursor table holds\<close>

text \<open>
  C3, as the code has it. After any sequence of calls of \<open>linein\<close>, \<open>lineout\<close> and \<open>rm\<close>
  on one object, the keys of the cursor table are the keys it started with and the absolute
  paths that some \<open>linein\<close> call of the sequence, sequential or positional, found to be a
  regular file; on a fresh object they are exactly those paths. No key is ever removed, and
  the reset at the end of a file stores 0 under the key. The claim that only sequential reads
  make a key present fails: one positional read of line 1 on a fresh object makes the key
  present.
\<close>

theorem key_present_iff_opened:
  "dom (file_positions (fst (snd (run cs w self)))) =
     dom (file_positions self) \<union> opened_by cs w self
   \<and> dom (file_positions (fst (snd (run cs w (init_rexx x v))))) =
     opened_by cs w (init_rexx x v)"
  using run_keys [of cs w self] run_keys [of cs w "init_rexx x v"]
  by (simp add: init_rexx_def)

theorem key_present_iff_opened_witness:
  "dom (file_positions (fst (snd (run
      [Linein ''f'' (Some 2) False, Linein ''g'' None False, Lineout ''h'' ''x'' False,
       Linein ''e'' None False, Rm ''f'']
      demo_world (init_rexx False False)))))
   = {''/w/f'', ''/w/e''}"
proof -
  let ?cs = "[Linein ''f'' (Some 2) False, Linein ''g'' None False, Lineout ''h'' ''x'' False,
       Linein ''e'' None False, Rm ''f'']"
  have a: "opened_by ?cs demo_world (init_rexx False False) = {''/w/f'', ''/w/e''}"
    by code_simp
  have "dom (file_positions (fst (snd (run ?cs demo_world (init_rexx False False))))) =
      opened_by ?cs demo_world (init_rexx False False)"
    by (rule conjunct2 [OF key_present_iff_opened])
  with a show ?thesis
    by (simp only:)
qed

theorem positional_read_makes_key_present_counterexample:
  "file_positions (init_rexx False True) = Map.empty
   \<and> fst (linein demo_world (init_rexx False True) ''f'' (Some 1) False) = Returned (Str ''ab'')
   \<and> file_positions (fst (snd (linein demo_world (init_rexx False True) ''f'' (Some 1) False)))
       ''/w/f'' \<noteq> None"
proof -
  have a: "file_positions (init_rexx False True) = Map.empty"
    by (simp add: init_rexx_def)
  have b: "fst (linein demo_world (init_rexx False True) ''f'' (Some 1) False) =
      Returned (Str ''ab'')"
    by code_simp
  have c: "file_positions
      (fst (snd (linein demo_world (init_rexx False True) ''f'' (Some 1) False))) ''/w/f'' \<noteq> None"
    by code_simp
  from a b c show ?thesis
    by blast
qed

section \<open>An explicit line number below 1\<close>

text \<open>
  C4. The claim: an explicit line number below 1 on an existing readable file is rejected
  with a usage error. \<open>linein.py\<close> and \<open>RexxFunctions_old2.py\<close> do so (\<open>ValueError\<close>);
  \<open>RexxFunctions.linein\<close> has no such check: no line has that number, so the call takes
  the end-of-file path and returns \<open>END_OF_FILE\<close>, or ends the process with status 0 when
  \<open>exit_on_eof\<close> and \<open>exit_on_error\<close> are set.
\<close>

theorem nonpositive_line_number_not_rejected:
  assumes "files w (resolve w p) = Some (Regular Granted wr rmv c)" and "k < 1"
  shows "fst (linein w self p (Some k) e) =
           (if e \<and> exit_on_error self then Exited 0 else Returned (Num END_OF_FILE))
       \<and> fst (linein_py w tbl p (Some k)) = Raised ValueError
       \<and> fst (linein_old2 w tbl p (Some k)) = Raised ValueError"
  using linein_eof [OF assms(1), where t = k and n = "Some k" and self = self and e = e] assms(2)
  by (simp add: linein_py_def linein_old2_def linein_legacy_unfold)

theorem nonpositive_line_number_not_rejected_witness:
  "fst (linein demo_world (init_rexx False True) ''f'' (Some 0) False) =
     Returned (Num END_OF_FILE)
   \<and> fst (linein demo_world (init_rexx True True) ''f'' (Some 0) True) = Exited 0
   \<and> fst (linein_py demo_world Map.empty ''f'' (Some 0)) = Raised ValueError"
proof -
  have f: "files demo_world (resolve demo_world ''f'') =
      Some (Regular Granted True True (''ab'' @ [LF] @ ''cd'' @ [LF]))"
    by (simp add: demo_world_def)
  have k: "(0::int) < 1"
    by simp
  show ?thesis
    using nonpositive_line_number_not_rejected [OF f k, of "init_rexx False True" False Map.empty]
      nonpositive_line_number_not_rejected [OF f k, of "init_rexx True True" True Map.empty]
    by (simp add: init_rexx_def)
qed

section \<open>Writing a line and reading it back\<close>

lemma text_lines_from_one_line:
  "LF \<notin> set c \<Longrightarrow> CR \<notin> set c \<Longrightarrow> text_lines_from cur (c @ [LF]) = [cur @ c @ [LF]]"
  by (induction c arbitrary: cur) auto

lemma lineout_written:
  assumes "fst (lineout w self p c False) = Returned (Num 0)"
  shows "\<exists>a wr rmv. files (snd (snd (lineout w self p c False))) (resolve w p) =
            Some (Regular a wr rmv (c @ [LF]))"
    and "resolve (snd (snd (lineout w self p c False))) = resolve w"
proof -
  have "fst (report self msg 1 w) \<noteq> Returned (Num 0)" for msg
    using report_outcome [of self msg 1 w] by (auto simp: exit_or_return_def split: if_splits)
  with assms show
    "\<exists>a wr rmv. files (snd (snd (lineout w self p c False))) (resolve w p) =
            Some (Regular a wr rmv (c @ [LF]))"
    and "resolve (snd (snd (lineout w self p c False))) = resolve w"
    by (auto simp: lineout_def write_text_def
        split: option.splits fnode.splits if_splits sum.splits)
qed

text \<open>
  C8, as the code has it. When \<open>lineout\<close> in write mode succeeds on a path (it returns 0),
  the file it wrote can be read, and the string \<open>c\<close> holds neither a line feed nor a
  carriage return, then reading line 1 of the path with \<open>linein\<close> returns exactly \<open>c\<close>.
  The file is read in text mode with universal newlines, where a carriage return ends a line
  as a line feed does: the claim for every string without a line feed fails on \<open>a\rb\<close>,
  whose first line read back is \<open>a\<close>.
\<close>

theorem write_then_read_first_line:
  assumes ok: "fst (lineout w self p c False) = Returned (Num 0)"
    and rd: "readable_at (snd (snd (lineout w self p c False))) (resolve w p)"
    and lf: "LF \<notin> set c" and cr: "CR \<notin> set c"
  shows "fst (linein (snd (snd (lineout w self p c False)))
               (fst (snd (lineout w self p c False))) p (Some 1) e) = Returned (Str c)"
proof -
  let ?w = "snd (snd (lineout w self p c False))"
  let ?s = "fst (snd (lineout w self p c False))"
  from lineout_written [OF ok] obtain a wr rmv
    where f: "files ?w (resolve w p) = Some (Regular a wr rmv (c @ [LF]))"
      and r: "resolve ?w = resolve w"
    by blast
  from rd f have "a = Granted"
    by (cases a) (simp_all add: readable_at_def)
  with f r have f': "files ?w (resolve ?w p) = Some (Regular Granted wr rmv (c @ [LF]))"
    by simp
  have t: "text_lines (c @ [LF]) = [c @ [LF]]"
    using text_lines_from_one_line [OF lf cr, of "[]"] by (simp add: text_lines_def)
  have "linein ?w ?s p (Some 1) e =
      (Returned (Str (rstrip_nl (text_lines (c @ [LF]) ! nat (1 - 1)))),
       ?s\<lparr>file_positions := (file_positions ?s)(resolve ?w p \<mapsto> 1), next_record := 1\<rparr>, ?w)"
    by (rule linein_found [OF f']) (simp_all add: t)
  then show ?thesis
    by (simp add: t rstrip_nl_terminated [OF lf])
qed

theorem write_then_read_first_line_witness:
  "fst (lineout demo_world (init_rexx True True) ''n'' ''abc'' False) = Returned (Num 0)
   \<and> fst (linein (snd (snd (lineout demo_world (init_rexx True True) ''n'' ''abc'' False)))
        (fst (snd (lineout demo_world (init_rexx True True) ''n'' ''abc'' False)))
        ''n'' (Some 1) True) = Returned (Str ''abc'')"
proof -
  have ok: "fst (lineout demo_world (init_rexx True True) ''n'' ''abc'' False) = Returned (Num 0)"
    by code_simp
  have rd: "readable_at (snd (snd (lineout demo_world (init_rexx True True) ''n'' ''abc'' False)))
      (resolve demo_world ''n'')"
    by code_simp
  have lf: "LF \<notin> set ''abc''" and cr: "CR \<notin> set ''abc''"
    by simp_all
  from ok write_then_read_first_line [OF ok rd lf cr, of True] show ?thesis
    by blast
qed

theorem carriage_return_counterexample:
  "fst (lineout demo_world (init_rexx True True) ''n'' (''a'' @ [CR] @ ''b'') False) =
     Returned (Num 0)
   \<and> LF \<notin> set (''a'' @ [CR] @ ''b'')
   \<and> fst (linein
        (snd (snd (lineout demo_world (init_rexx True True) ''n'' (''a'' @ [CR] @ ''b'') False)))
        (fst (snd (lineout demo_world (init_rexx True True) ''n'' (''a'' @ [CR] @ ''b'') False)))
        ''n'' (Some 1) True) = Returned (Str ''a'')"
  by code_simp

section \<open>The \<open>verbose\<close> flag\<close>






lemma stdout_untouched:
  "stdout (snd (snd (linein w self p n e))) = stdout w"
  "stdout (snd (snd (lineout w self p s m))) = stdout w"
  by (simp_all add: linein_unfold lineout_def Let_def not_a_file_def except_exception_def
      report_def print_err_def print_to_stderr_def write_text_def
      split: option.splits fnode.splits sum.splits os_error.splits prod.splits if_splits)




section \<open>The two implementations of \<open>linein\<close>\<close>

lemma linein_missing:
  assumes "files w (resolve w p) = None"
    and "verbose self \<longrightarrow> stderr_accepts w (''File does not exist: '' @ resolve w p)"
  shows "linein w self p n e =
     (if exit_on_error self then Exited 1 else Returned (Num FILE_NOT_FOUND), self,
      if verbose self then w\<lparr>stderr := stderr w @ [''File does not exist: '' @ resolve w p]\<rparr>
      else w)"
  using assms
  by (simp add: linein_unfold Let_def not_a_file_def print_err_accepted exit_or_return_def)

lemma linein_missing_frame:
  assumes "files w (resolve w p) = None"
  shows "fst (snd (linein w self p n e)) = self"
  using assms by (simp add: linein_unfold Let_def)

lemma linein_legacy_missing:
  assumes "files w (resolve w p) = None"
  shows "linein_legacy msg w tbl p None =
     (if stdout_accepts w msg then Returned (Num FILE_NOT_FOUND) else Raised ValueError,
      tbl(p \<mapsto> (case tbl p of None \<Rightarrow> 0 | Some v \<Rightarrow> v) + 1),
      if stdout_accepts w msg then w\<lparr>stdout := stdout w @ [msg]\<rparr> else w)"
  using assms by (simp add: linein_legacy_unfold Let_def open_read_def print_to_stdout_def)

lemma cursor_of_table:
  "file_positions self key = tbl p \<Longrightarrow>
   (if tbl p = None then tbl(p \<mapsto> 0) else tbl) p = Some (cursor_of self key)"
  by (auto simp: cursor_of_case)

text \<open>
  C6, as the code has it. \<open>RexxFunctions.linein\<close> and the \<open>linein\<close> of \<open>linein.py\<close>
  (the same method as in \<open>RexxFunctions_old2.py\<close>, but for the text it prints) differ in
  what can be observed, started on the same cursor for the file:
  \<^item> on a path that does not exist, the first ends the process with status 1 when
    \<open>exit_on_error\<close> is set (it returns \<open>FILE_NOT_FOUND\<close> otherwise), prints nothing on
    standard output and leaves the table alone; the second prints on standard output,
    returns \<open>FILE_NOT_FOUND\<close> and has advanced the cursor (each where its \<open>print\<close> does
    not raise; the second raises \<open>ValueError\<close> where standard output refuses the text);
  \<^item> on a positional read that finds its line both return the line, the first stores the
    line number as the cursor and the second leaves the cursor as it was.

  On a positional read past the end of the file they agree: neither resets the cursor, both
  leave it as it was (0 for a key that was missing). So the difference on the reset that the
  claim names does not exist.
\<close>

theorem linein_implementations_differ:
  "(files w (resolve w p) = None \<longrightarrow>
      ((verbose self \<longrightarrow> stderr_accepts w (''File does not exist: '' @ resolve w p)) \<longrightarrow>
         fst (linein w self p None e) =
           (if exit_on_error self then Exited 1 else Returned (Num FILE_NOT_FOUND)))
    \<and> stdout (snd (snd (linein w self p None e))) = stdout w
    \<and> file_positions (fst (snd (linein w self p None e))) = file_positions self
    \<and> fst (linein_py w tbl p None) =
        (if stdout_accepts w (''file '' @ p @ '' not found...'')
         then Returned (Num FILE_NOT_FOUND) else Raised ValueError)
    \<and> stdout (snd (snd (linein_py w tbl p None))) =
        (if stdout_accepts w (''file '' @ p @ '' not found...'')
         then stdout w @ [''file '' @ p @ '' not found...''] else stdout w)
    \<and> stderr (snd (snd (linein_py w tbl p None))) = stderr w
    \<and> fst (snd (linein_py w tbl p None)) p =
        Some ((case tbl p of None \<Rightarrow> 0 | Some v \<Rightarrow> v) + 1))
   \<and> (files w (resolve w p) = Some (Regular Granted wr rmv c) \<and> 1 \<le> k
      \<and> k \<le> int (length (text_lines c)) \<and> file_positions self (resolve w p) = tbl p \<longrightarrow>
      fst (linein w self p (Some k) e) = Returned (Str (rstrip_nl (text_lines c ! nat (k - 1))))
    \<and> fst (linein_py w tbl p (Some k)) = fst (linein w self p (Some k) e)
    \<and> file_positions (fst (snd (linein w self p (Some k) e))) (resolve w p) = Some k
    \<and> fst (snd (linein_py w tbl p (Some k))) p = Some (cursor_of self (resolve w p)))
   \<and> (files w (resolve w p) = Some (Regular Granted wr rmv c)
      \<and> int (length (text_lines c)) < k \<and> file_positions self (resolve w p) = tbl p \<longrightarrow>
      fst (linein w self p (Some k) e) =
        (if e \<and> exit_on_error self then Exited 0 else Returned (Num END_OF_FILE))
    \<and> fst (linein_py w tbl p (Some k)) = Returned (Num END_OF_FILE)
    \<and> file_positions (fst (snd (linein w self p (Some k) e))) (resolve w p) =
        Some (cursor_of self (resolve w p))
    \<and> fst (snd (linein_py w tbl p (Some k))) p = Some (cursor_of self (resolve w p)))
   \<and> (stdout_accepts w (''File does not exist: '' @ p) =
        stdout_accepts w (''file '' @ p @ '' not found...'') \<longrightarrow>
      fst (linein_old2 w tbl p n) = fst (linein_py w tbl p n))
   \<and> fst (snd (linein_old2 w tbl p n)) = fst (snd (linein_py w tbl p n))"
proof -
  have A: "((verbose self \<longrightarrow> stderr_accepts w (''File does not exist: '' @ resolve w p)) \<longrightarrow>
         fst (linein w self p None e) =
           (if exit_on_error self then Exited 1 else Returned (Num FILE_NOT_FOUND)))
    \<and> stdout (snd (snd (linein w self p None e))) = stdout w
    \<and> file_positions (fst (snd (linein w self p None e))) = file_positions self
    \<and> fst (linein_py w tbl p None) =
        (if stdout_accepts w (''file '' @ p @ '' not found...'')
         then Returned (Num FILE_NOT_FOUND) else Raised ValueError)
    \<and> stdout (snd (snd (linein_py w tbl p None))) =
        (if stdout_accepts w (''file '' @ p @ '' not found...'')
         then stdout w @ [''file '' @ p @ '' not found...''] else stdout w)
    \<and> stderr (snd (snd (linein_py w tbl p None))) = stderr w
    \<and> fst (snd (linein_py w tbl p None)) p =
        Some ((case tbl p of None \<Rightarrow> 0 | Some v \<Rightarrow> v) + 1)"
    if "files w (resolve w p) = None"
  proof -
    have a1: "fst (linein w self p None e) =
        (if exit_on_error self then Exited 1 else Returned (Num FILE_NOT_FOUND))"
      if "verbose self \<longrightarrow> stderr_accepts w (''File does not exist: '' @ resolve w p)"
      using linein_missing [OF \<open>files w (resolve w p) = None\<close> that, of None e] by simp
    have a2: "stdout (snd (snd (linein w self p None e))) = stdout w"
      by (rule stdout_untouched)
    have a3: "file_positions (fst (snd (linein w self p None e))) = file_positions self"
      using linein_missing_frame [OF \<open>files w (resolve w p) = None\<close>] by simp
    from a1 a2 a3 show ?thesis
      using linein_legacy_missing [OF \<open>files w (resolve w p) = None\<close>]
      by (simp add: linein_py_def)
  qed
  have B: "fst (linein w self p (Some k) e) =
        Returned (Str (rstrip_nl (text_lines c ! nat (k - 1))))
    \<and> fst (linein_py w tbl p (Some k)) = fst (linein w self p (Some k) e)
    \<and> file_positions (fst (snd (linein w self p (Some k) e))) (resolve w p) = Some k
    \<and> fst (snd (linein_py w tbl p (Some k))) p = Some (cursor_of self (resolve w p))"
    if f: "files w (resolve w p) = Some (Regular Granted wr rmv c)" and k: "1 \<le> k"
      "k \<le> int (length (text_lines c))" and t: "file_positions self (resolve w p) = tbl p"
    using linein_found [OF f, where t = k and n = "Some k" and self = self and e = e]
      linein_legacy_positional [OF f k(1)] k cursor_of_table [where tbl = tbl and p = p, OF t]
    by (simp add: linein_py_def linein_legacy_positional_table)
  have C: "fst (linein w self p (Some k) e) =
        (if e \<and> exit_on_error self then Exited 0 else Returned (Num END_OF_FILE))
    \<and> fst (linein_py w tbl p (Some k)) = Returned (Num END_OF_FILE)
    \<and> file_positions (fst (snd (linein w self p (Some k) e))) (resolve w p) =
        Some (cursor_of self (resolve w p))
    \<and> fst (snd (linein_py w tbl p (Some k))) p = Some (cursor_of self (resolve w p))"
    if f: "files w (resolve w p) = Some (Regular Granted wr rmv c)"
      and k: "int (length (text_lines c)) < k" and t: "file_positions self (resolve w p) = tbl p"
  proof -
    from k have k1: "1 \<le> k"
      by linarith
    show ?thesis
      using linein_eof [OF f, where t = k and n = "Some k" and self = self and e = e]
        linein_legacy_positional [OF f k1] k cursor_of_table [where tbl = tbl and p = p, OF t]
      by (simp add: linein_py_def linein_legacy_positional_table)
  qed
  have D: "(stdout_accepts w (''File does not exist: '' @ p) =
        stdout_accepts w (''file '' @ p @ '' not found...'') \<longrightarrow>
      fst (linein_old2 w tbl p n) = fst (linein_py w tbl p n))
    \<and> fst (snd (linein_old2 w tbl p n)) = fst (snd (linein_py w tbl p n))"
    by (simp add: linein_old2_def linein_py_def linein_legacy_unfold Let_def
        print_to_stdout_def
        split: option.splits sum.splits os_error.splits prod.splits)
  from A B C D show ?thesis
    by blast
qed

theorem linein_implementations_differ_witness:
  "fst (linein demo_world (init_rexx True True) ''g'' None True) = Exited 1
   \<and> fst (linein_py demo_world Map.empty ''g'' None) = Returned (Num FILE_NOT_FOUND)
   \<and> stdout (snd (snd (linein_py demo_world Map.empty ''g'' None))) = [''file g not found...'']
   \<and> fst (linein demo_world
        ((init_rexx True True)\<lparr>file_positions := [''/w/f'' \<mapsto> 1]\<rparr>) ''f'' (Some 2) True) =
       Returned (Str ''cd'')
   \<and> file_positions (fst (snd (linein demo_world
        ((init_rexx True True)\<lparr>file_positions := [''/w/f'' \<mapsto> 1]\<rparr>) ''f'' (Some 2) True)))
        ''/w/f'' = Some 2
   \<and> fst (snd (linein_py demo_world [''f'' \<mapsto> 1] ''f'' (Some 2))) ''f'' = Some 1
   \<and> file_positions (fst (snd (linein demo_world
        ((init_rexx True True)\<lparr>file_positions := [''/w/f'' \<mapsto> 1]\<rparr>) ''f'' (Some 3) False)))
        ''/w/f'' = Some 1
   \<and> fst (snd (linein_py demo_world [''f'' \<mapsto> 1] ''f'' (Some 3))) ''f'' = Some 1"
proof -
  let ?s = "(init_rexx True True)\<lparr>file_positions := [''/w/f'' \<mapsto> 1]\<rparr>"
  have g: "files demo_world (resolve demo_world ''g'') = None"
    by (simp add: demo_world_def)
  have f: "files demo_world (resolve demo_world ''f'') =
      Some (Regular Granted True True (''ab'' @ [LF] @ ''cd'' @ [LF]))"
    by (simp add: demo_world_def)
  have r: "resolve demo_world ''f'' = ''/w/f''"
    by (simp add: demo_world_def)
  have t: "text_lines (''ab'' @ [LF] @ ''cd'' @ [LF]) = [''ab'' @ [LF], ''cd'' @ [LF]]"
    by (simp add: text_lines_def)
  have c: "cursor_of ?s ''/w/f'' = 1"
    by (simp add: cursor_of_case)
  have x: "exit_on_error (init_rexx True True)" "stdout demo_world = []"
    "stderr_accepts demo_world m" "stdout_accepts demo_world m" for m
    by (simp_all add: init_rexx_def demo_world_def)
  have e: "file_positions ?s ''/w/f'' = [''f'' \<mapsto> 1] ''f''"
    by simp
  note T1 = linein_implementations_differ [where w = demo_world and p = "''g''"
      and self = "init_rexx True True" and e = True and tbl = Map.empty and k = 1
      and n = None and c = "[]" and wr = True and rmv = True]
  note T2 = linein_implementations_differ [where w = demo_world and p = "''f''"
      and self = ?s and e = True and tbl = "[''f'' \<mapsto> 1]" and k = 2
      and n = None and c = "''ab'' @ [LF] @ ''cd'' @ [LF]" and wr = True and rmv = True]
  note T3 = linein_implementations_differ [where w = demo_world and p = "''f''"
      and self = ?s and e = False and tbl = "[''f'' \<mapsto> 1]" and k = 3
      and n = None and c = "''ab'' @ [LF] @ ''cd'' @ [LF]" and wr = True and rmv = True]
  have a1: "fst (linein demo_world (init_rexx True True) ''g'' None True) = Exited 1
   \<and> fst (linein_py demo_world Map.empty ''g'' None) = Returned (Num FILE_NOT_FOUND)
   \<and> stdout (snd (snd (linein_py demo_world Map.empty ''g'' None))) = [''file g not found...'']"
    using T1 g x by simp
  have a2: "fst (linein demo_world ?s ''f'' (Some 2) True) = Returned (Str ''cd'')
   \<and> file_positions (fst (snd (linein demo_world ?s ''f'' (Some 2) True))) ''/w/f'' = Some 2
   \<and> fst (snd (linein_py demo_world [''f'' \<mapsto> 1] ''f'' (Some 2))) ''f'' = Some 1"
    using T2 f e c unfolding r t by (simp add: rstrip_nl_def)
  have a3: "file_positions (fst (snd (linein demo_world ?s ''f'' (Some 3) False))) ''/w/f'' = Some 1
   \<and> fst (snd (linein_py demo_world [''f'' \<mapsto> 1] ''f'' (Some 3))) ''f'' = Some 1"
    using T3 f e c unfolding r t by simp
  from a1 a2 a3 show ?thesis
    by blast
qed

theorem positional_eof_reset_counterexample:
  "\<not> (\<exists>w self tbl p k e wr rmv c.
        files w (resolve w p) = Some (Regular Granted wr rmv c)
      \<and> int (length (text_lines c)) < k
      \<and> file_positions self (resolve w p) = tbl p
      \<and> file_positions (fst (snd (linein w self p (Some k) e))) (resolve w p) \<noteq>
          fst (snd (linein_py w tbl p (Some k))) p)"
proof
  assume "\<exists>w self tbl p k e wr rmv c.
        files w (resolve w p) = Some (Regular Granted wr rmv c)
      \<and> int (length (text_lines c)) < k
      \<and> file_positions self (resolve w p) = tbl p
      \<and> file_positions (fst (snd (linein w self p (Some k) e))) (resolve w p) \<noteq>
          fst (snd (linein_py w tbl p (Some k))) p"
  then obtain w self tbl p k e wr rmv c
    where f: "files w (resolve w p) = Some (Regular Granted wr rmv c)"
      and k: "int (length (text_lines c)) < k"
      and t: "file_positions self (resolve w p) = tbl p"
      and d: "file_positions (fst (snd (linein w self p (Some k) e))) (resolve w p) \<noteq>
          fst (snd (linein_py w tbl p (Some k))) p"
    by blast
  have "file_positions (fst (snd (linein w self p (Some k) e))) (resolve w p) =
      Some (cursor_of self (resolve w p))"
    using linein_eof [OF f, where t = k and n = "Some k" and self = self and e = e] k
    by simp
  moreover have "fst (snd (linein_py w tbl p (Some k))) p = Some (cursor_of self (resolve w p))"
    using cursor_of_table [where tbl = tbl and p = p, OF t] by (simp add: linein_py_def linein_legacy_positional_table)
  ultimately show False
    using d by simp
qed

end
